theory Spec2Isabelle
  imports Complex_Main "HOL-Library.Char_ord" "HOL-Library.List_Lexorder" "HOL-Library.Multiset"
    "HOL-Library.AList"
begin

section \<open>Python values\<close>

text \<open>
  The tracker is one Python module, \<^verbatim>\<open>tracker.py\<close>. Its prices are Python floats; they are
  modelled as \<^typ>\<open>real\<close>, so rounding is left out and what remains is which branch is taken
  and which arithmetic is applied to which value. Strings are \<^typ>\<open>string\<close>, compared
  lexicographically character by character as Python compares \<^verbatim>\<open>str\<close> (the instances come
  from \<^verbatim>\<open>Char_ord\<close> and \<^verbatim>\<open>List_Lexorder\<close>). Exceptions are values of \<open>py_error\<close>.
  Logging and the Telegram call are outputs only and are left out, except for the
  \<^verbatim>\<open>Alert triggered\<close> log lines, which are kept as the trace of fired alert keys.
\<close>

datatype py_error = ZeroDivisionError | IndexError | KeyError | TypeError | ProviderError

text \<open>True division \<^verbatim>\<open>a / b\<close>: raises on a zero divisor.\<close>

definition py_div :: "real \<Rightarrow> real \<Rightarrow> py_error + real" where
  "py_div a b = (if b = 0 then Inl ZeroDivisionError else Inr (a / b))"

text \<open>List indexing \<^verbatim>\<open>xs[i]\<close>: a negative index counts from the end, out of range raises.\<close>

definition py_index :: "'a list \<Rightarrow> int \<Rightarrow> py_error + 'a" where
  "py_index xs i =
     (if 0 \<le> i \<and> i < int (length xs) then Inr (xs ! nat i)
      else if i < 0 \<and> - int (length xs) \<le> i then Inr (xs ! nat (int (length xs) + i))
      else Inl IndexError)"

text \<open>\<^verbatim>\<open>s.endswith(suffix)\<close>.\<close>

definition endswith :: "string \<Rightarrow> string \<Rightarrow> bool" where
  "endswith s suffix =
     (length suffix \<le> length s \<and> drop (length s - length suffix) s = suffix)"

text \<open>Sequencing of a computation that may raise.\<close>

definition bind_err :: "py_error + 'a \<Rightarrow> ('a \<Rightarrow> py_error + 'b) \<Rightarrow> py_error + 'b" where
  "bind_err m f = (case m of Inl e \<Rightarrow> Inl e | Inr x \<Rightarrow> f x)"

section \<open>Configuration\<close>

text \<open>
  One value of the \<^verbatim>\<open>ASSETS\<close> dictionary. The \<^verbatim>\<open>emoji\<close> field only decorates the
  summary text and is left out.
\<close>

record asset_config =
  ticker :: string
  name :: string
  native_currency :: string
  unit :: string

definition gold_gbp :: asset_config where
  "gold_gbp = \<lparr>ticker = ''GC=F'', name = ''Gold'', native_currency = ''USD'', unit = ''per oz''\<rparr>"

definition iswd :: asset_config where
  "iswd = \<lparr>ticker = ''ISWD.L'', name = ''ISWD'', native_currency = ''GBP'', unit = ''''\<rparr>"

definition hbks :: asset_config where
  "hbks = \<lparr>ticker = ''HBKS.L'', name = ''HBKS'', native_currency = ''GBP'', unit = ''''\<rparr>"

text \<open>\<^verbatim>\<open>ASSETS.items()\<close>, in the dictionary's insertion order.\<close>

definition ASSETS :: "(string \<times> asset_config) list" where
  "ASSETS = [(''gold_gbp'', gold_gbp), (''iswd'', iswd), (''hbks'', hbks)]"

definition PENCE_THRESHOLD :: real where
  "PENCE_THRESHOLD = 100"

definition HISTORY_DAYS :: int where
  "HISTORY_DAYS = 90"

text \<open>
  The part of \<^verbatim>\<open>config.json\<close> that \<^verbatim>\<open>cmd_watch\<close> reads: the optional
  \<^verbatim>\<open>intraday_alerts.default_threshold_pct\<close>, the \<^verbatim>\<open>intraday_alerts.thresholds\<close>
  dictionary and the \<^verbatim>\<open>price_alerts\<close> dictionary with its optional \<^verbatim>\<open>above\<close> and
  \<^verbatim>\<open>below\<close> levels. A missing dictionary is the empty one.
\<close>

record price_alert =
  above :: "real option"
  below :: "real option"

record config =
  default_threshold_pct :: "real option"
  thresholds :: "(string \<times> real) list"
  price_alerts :: "(string \<times> price_alert) list"

section \<open>The clock\<close>

text \<open>
  The code reads the clock as \<^verbatim>\<open>datetime.now(LONDON_TZ)\<close>. Where it only formats the
  reading with \<^verbatim>\<open>strftime("%Y-%m-%d")\<close>, the model takes the resulting string as a
  parameter \<open>today\<close>, one parameter for each reading. \<^verbatim>\<open>save_history\<close> first goes back
  \<^verbatim>\<open>HISTORY_DAYS\<close> days: there the model takes the day number \<open>now\<close> of the London date
  and the formatting \<open>cal\<close> of a day number as a date string, which belongs to the
  \<^verbatim>\<open>datetime\<close> library.
\<close>

type_synonym calendar = "int \<Rightarrow> string"

section \<open>The price provider\<close>

text \<open>
  \<^verbatim>\<open>yf.Ticker(symbol).history(period=...)\<close> is the external price provider. It returns a
  table with one row per trading day, oldest first, of which the code reads the
  \<^verbatim>\<open>Open\<close> and \<^verbatim>\<open>Close\<close> columns, or it raises.
\<close>

record bar =
  bar_open :: real
  bar_close :: real

type_synonym provider = "string \<Rightarrow> py_error + bar list"

text \<open>\<^verbatim>\<open>get_gbp_usd_rate\<close>: the last close of \<^verbatim>\<open>GBPUSD=X\<close>; every failure is \<open>None\<close>.\<close>

definition get_gbp_usd_rate :: "provider \<Rightarrow> real option" where
  "get_gbp_usd_rate yf =
     (case yf ''GBPUSD=X'' of
        Inl e \<Rightarrow> None
      | Inr data \<Rightarrow> if data = [] then None else Some (bar_close (last data)))"

section \<open>Quote normalisation\<close>

record price_data =
  price_gbp :: real
  open_gbp :: real
  prev_close_gbp :: real
  price_usd :: "real option"
  open_usd :: "real option"
  prev_close_usd :: "real option"

text \<open>The three raw values read from the provider's table (lines 164 to 171).\<close>

definition current_raw :: "bar list \<Rightarrow> real" where
  "current_raw data = bar_close (last data)"

definition open_raw :: "bar list \<Rightarrow> real" where
  "open_raw data = bar_open (last data)"

definition prev_close_raw :: "bar list \<Rightarrow> real" where
  "prev_close_raw data =
     (if length data > 1 then bar_close (data ! (length data - 2)) else open_raw data)"

text \<open>
  The body of the \<^verbatim>\<open>try\<close> block of \<^verbatim>\<open>get_asset_price\<close>. \<open>Inr None\<close> is an explicit
  \<^verbatim>\<open>return None\<close>, \<open>Inl e\<close> an exception raised inside the block. The pence rule rebinds
  the three raw values together; dividing by the exchange rate raises when the rate is zero.
\<close>

definition get_asset_price_try ::
  "string \<Rightarrow> asset_config \<Rightarrow> real option \<Rightarrow> provider \<Rightarrow> py_error + price_data option" where
  "get_asset_price_try asset_key cfg rate yf =
     bind_err (yf (ticker cfg)) (\<lambda>data.
       if data = [] then Inr None
       else
         let pence = (endswith (ticker cfg) ''.L'' \<and> current_raw data > PENCE_THRESHOLD);
             cur = (if pence then current_raw data / 100 else current_raw data);
             opn = (if pence then open_raw data / 100 else open_raw data);
             prv = (if pence then prev_close_raw data / 100 else prev_close_raw data)
         in if native_currency cfg = ''USD'' then
              (case rate of
                 None \<Rightarrow> Inr None
               | Some r \<Rightarrow>
                   bind_err (py_div cur r) (\<lambda>p_gbp.
                   bind_err (py_div opn r) (\<lambda>o_gbp.
                   bind_err (py_div prv r) (\<lambda>c_gbp.
                     Inr (Some \<lparr>price_gbp = p_gbp, open_gbp = o_gbp, prev_close_gbp = c_gbp,
                                price_usd = Some cur, open_usd = Some opn,
                                prev_close_usd = Some prv\<rparr>)))))
            else
              Inr (Some \<lparr>price_gbp = cur, open_gbp = opn, prev_close_gbp = prv,
                         price_usd = map_option (\<lambda>r. cur * r) rate,
                         open_usd = map_option (\<lambda>r. opn * r) rate,
                         prev_close_usd = map_option (\<lambda>r. prv * r) rate\<rparr>))"

text \<open>\<^verbatim>\<open>except Exception: return None\<close> around the body.\<close>

definition get_asset_price ::
  "string \<Rightarrow> asset_config \<Rightarrow> real option \<Rightarrow> provider \<Rightarrow> price_data option" where
  "get_asset_price asset_key cfg rate yf =
     (case get_asset_price_try asset_key cfg rate yf of Inl e \<Rightarrow> None | Inr r \<Rightarrow> r)"

section \<open>The history store\<close>

text \<open>
  One element of \<^verbatim>\<open>history["entries"]\<close>. The \<^verbatim>\<open>prices\<close> dictionary is an association
  list; a value can be JSON \<^verbatim>\<open>null\<close>. A missing \<^verbatim>\<open>prices\<close> key, which
  \<^verbatim>\<open>calculate_trend\<close> reads as the empty dictionary, is the empty list.
\<close>

record entry =
  date :: string
  prices :: "(string \<times> real option) list"
  gbp_usd_rate :: "real option"

record history =
  entries :: "entry list"

text \<open>\<^verbatim>\<open>load_history\<close>: \<open>None\<close> is a missing file.\<close>

definition load_history :: "history option \<Rightarrow> history" where
  "load_history file = (case file of None \<Rightarrow> \<lparr>entries = []\<rparr> | Some h \<Rightarrow> h)"

text \<open>
  \<^verbatim>\<open>save_history\<close>: the result is the dictionary after the trim, which is also what is
  written to the file.
\<close>

definition save_history :: "calendar \<Rightarrow> int \<Rightarrow> history \<Rightarrow> history" where
  "save_history cal now h =
     (let cutoff_str = cal (now - HISTORY_DAYS)
      in h\<lparr>entries := filter (\<lambda>entry. date entry \<ge> cutoff_str) (entries h)\<rparr>)"

section \<open>The trend calculator\<close>

text \<open>
  The test of the list comprehension in \<^verbatim>\<open>calculate_trend\<close>: the key is present and its
  value is not \<^verbatim>\<open>None\<close>.
\<close>

definition has_price :: "string \<Rightarrow> entry \<Rightarrow> bool" where
  "has_price asset_key e =
     (case map_of (prices e) asset_key of Some (Some v) \<Rightarrow> True | _ \<Rightarrow> False)"

text \<open>
  \<^verbatim>\<open>e["prices"][asset_key]\<close> read as a number: a missing key raises, and \<^verbatim>\<open>None\<close>
  raises in the arithmetic that follows.
\<close>

definition entry_price :: "string \<Rightarrow> entry \<Rightarrow> py_error + real" where
  "entry_price asset_key e =
     (case map_of (prices e) asset_key of
        None \<Rightarrow> Inl KeyError
      | Some None \<Rightarrow> Inl TypeError
      | Some (Some v) \<Rightarrow> Inr v)"

definition relevant_entries :: "history \<Rightarrow> string \<Rightarrow> entry list" where
  "relevant_entries h asset_key = filter (has_price asset_key) (entries h)"

text \<open>
  \<^verbatim>\<open>relevant.sort(key=lambda x: x["date"], reverse=True)\<close>. Python's sort is stable, and
  with \<^verbatim>\<open>reverse=True\<close> entries with equal keys keep their original order: the list is
  reversed, sorted stably in ascending order and reversed again.
\<close>

definition sort_date_desc :: "entry list \<Rightarrow> entry list" where
  "sort_date_desc xs = rev (sort_key date (rev xs))"

text \<open>
  \<^verbatim>\<open>calculate_trend\<close> up to the choice of the two prices (lines 253 to 273): \<open>Inr None\<close>
  is the early \<^verbatim>\<open>return None\<close>, otherwise the pair is \<^verbatim>\<open>(current, past)\<close>.
\<close>

definition trend_points :: "history \<Rightarrow> string \<Rightarrow> int \<Rightarrow> py_error + (real \<times> real) option" where
  "trend_points h asset_key days =
     (let relevant = relevant_entries h asset_key in
      if length relevant < 2 then Inr None
      else
        let relevant = sort_date_desc relevant in
        bind_err (py_index relevant 0) (\<lambda>newest.
        bind_err (entry_price asset_key newest) (\<lambda>current.
        bind_err (if int (length relevant) \<le> days then py_index relevant (- 1)
                  else py_index relevant days) (\<lambda>older.
        bind_err (entry_price asset_key older) (\<lambda>past.
          Inr (Some (current, past)))))))"

text \<open>The whole of \<^verbatim>\<open>calculate_trend\<close>: the zero test and the percentage (lines 275 to 278).\<close>

definition calculate_trend :: "history \<Rightarrow> string \<Rightarrow> int \<Rightarrow> py_error + real option" where
  "calculate_trend h asset_key days =
     bind_err (trend_points h asset_key days) (\<lambda>points.
       case points of
         None \<Rightarrow> Inr None
       | Some (current, past) \<Rightarrow>
           if past = 0 then Inr None
           else bind_err (py_div (current - past) past) (\<lambda>q. Inr (Some (q * 100))))"

section \<open>The alert state\<close>

text \<open>The content of \<^verbatim>\<open>alerts_state.json\<close>; the date can be \<^verbatim>\<open>null\<close>.\<close>

record alerts_state =
  state_date :: "string option"
  fired :: "string list"

text \<open>\<^verbatim>\<open>load_alerts_state\<close>: \<open>None\<close> is a missing file.\<close>

definition load_alerts_state :: "string \<Rightarrow> alerts_state option \<Rightarrow> alerts_state" where
  "load_alerts_state today file =
     (case file of
        None \<Rightarrow> \<lparr>state_date = None, fired = []\<rparr>
      | Some state \<Rightarrow>
          if state_date state \<noteq> Some today then \<lparr>state_date = Some today, fired = []\<rparr>
          else state)"

text \<open>
  \<^verbatim>\<open>save_alerts_state\<close>: the result is the state as written to the file.
\<close>

definition save_alerts_state :: "string \<Rightarrow> alerts_state \<Rightarrow> alerts_state" where
  "save_alerts_state today state = state\<lparr>state_date := Some today\<rparr>"

section \<open>The daily summary\<close>

text \<open>
  The lines of the summary message. Each constructor stands for one format string of
  \<^verbatim>\<open>cmd_summary\<close> and carries the values that the string shows; the rendering of numbers
  as text is left out.
\<close>

datatype summary_line =
    Title
  | DateLine
  | Blank
  | Unavailable string
  | Header string
  | PriceLine real "real option" string
  | ChangeLine real real
  | TrendLine "real option" "real option"
  | RateLine real

text \<open>
  The price line (lines 379 to 387). For a USD-native instrument the USD price is formatted
  without a test for \<^verbatim>\<open>None\<close>.
\<close>

definition price_line :: "asset_config \<Rightarrow> real \<Rightarrow> real option \<Rightarrow> py_error + summary_line" where
  "price_line cfg current_gbp current_usd =
     (if native_currency cfg = ''USD'' then
        (case current_usd of
           None \<Rightarrow> Inl TypeError
         | Some usd \<Rightarrow> Inr (PriceLine current_gbp (Some usd) (unit cfg)))
      else Inr (PriceLine current_gbp current_usd (unit cfg)))"

text \<open>
  The loop over \<^verbatim>\<open>ASSETS.items()\<close> in \<^verbatim>\<open>cmd_summary\<close> (lines 353 to 404), threading
  the \<^verbatim>\<open>prices\<close> dictionary, here \<open>collected\<close>, and the lines of the message.
\<close>

fun summary_loop ::
  "history \<Rightarrow> real option \<Rightarrow> provider \<Rightarrow> (string \<times> asset_config) list \<Rightarrow>
     (string \<times> real option) list \<Rightarrow> summary_line list \<Rightarrow>
     py_error + ((string \<times> real option) list \<times> summary_line list)" where
  "summary_loop history rate yf [] collected lines = Inr (collected, lines)"
| "summary_loop history rate yf ((asset_key, cfg) # rest) collected lines =
     (case get_asset_price asset_key cfg rate yf of
        None \<Rightarrow>
          summary_loop history rate yf rest collected (lines @ [Unavailable (name cfg), Blank])
      | Some pd \<Rightarrow>
          let current_gbp = price_gbp pd;
              current_usd = price_usd pd;
              prev_close = prev_close_gbp pd;
              collected = AList.update asset_key (Some current_gbp) collected;
              daily_change = current_gbp - prev_close;
              daily_change_pct =
                (if prev_close \<noteq> 0 then daily_change / prev_close * 100 else 0)
          in bind_err (price_line cfg current_gbp current_usd) (\<lambda>shown.
             bind_err (calculate_trend history asset_key 5) (\<lambda>weekly.
             bind_err (calculate_trend history asset_key 22) (\<lambda>monthly.
               summary_loop history rate yf rest collected
                 (lines @ [Header (name cfg), shown, ChangeLine daily_change daily_change_pct]
                    @ (if weekly \<noteq> None \<or> monthly \<noteq> None then [TrendLine weekly monthly] else [])
                    @ [Blank])))))"

text \<open>The exchange-rate line: \<^verbatim>\<open>if gbp_usd_rate:\<close> is false for \<^verbatim>\<open>None\<close> and for zero.\<close>

definition rate_lines :: "real option \<Rightarrow> summary_line list" where
  "rate_lines rate = (case rate of None \<Rightarrow> [] | Some r \<Rightarrow> if r \<noteq> 0 then [RateLine r] else [])"

text \<open>
  \<^verbatim>\<open>cmd_summary\<close>: \<open>stored\<close> is the history file before the run. The result is the
  history file after the run together with the message, or the exception that ends the
  command.
\<close>

definition cmd_summary ::
  "string \<Rightarrow> calendar \<Rightarrow> int \<Rightarrow> provider \<Rightarrow> history option \<Rightarrow>
     py_error + (history option \<times> summary_line list)" where
  "cmd_summary today cal now yf stored =
     (let rate = get_gbp_usd_rate yf;
          history = load_history stored
      in bind_err (summary_loop history rate yf ASSETS [] [Title, DateLine, Blank])
           (\<lambda>(collected, lines).
              let lines = lines @ rate_lines rate;
                  stored' =
                    (if collected \<noteq> [] then
                       Some (save_history cal now
                         (history\<lparr>entries :=
                            filter (\<lambda>e. date e \<noteq> today) (entries history)
                              @ [\<lparr>date = today, prices = collected, gbp_usd_rate = rate\<rparr>]\<rparr>))
                     else stored)
              in Inr (stored', lines)))"

section \<open>The intraday watch\<close>

text \<open>
  An alert message of \<^verbatim>\<open>cmd_watch\<close> with the values it shows: the instrument's name, then
  current price, open price, change and threshold for a spike or a dip, the level and the
  current price for a price alert.
\<close>

datatype alert =
    Spike string real real real real
  | Dip string real real real real
  | PriceAbove string real real
  | PriceBelow string real real

text \<open>
  What the loop of \<^verbatim>\<open>cmd_watch\<close> updates: the alert state, \<^verbatim>\<open>alerts_to_send\<close> and the
  keys logged as \<^verbatim>\<open>Alert triggered\<close>.
\<close>

record watch_run =
  state :: alerts_state
  alerts_to_send :: "alert list"
  triggered :: "string list"

text \<open>
  The block that the three checks share (lines 464 to 473, 481 to 487 and 492 to 498): if the
  key is not in \<^verbatim>\<open>state["fired"]\<close>, append the message, append the key and log it.
\<close>

definition fire :: "string \<Rightarrow> alert \<Rightarrow> watch_run \<Rightarrow> watch_run" where
  "fire alert_key message run =
     (if alert_key \<notin> set (fired (state run)) then
        run\<lparr>alerts_to_send := alerts_to_send run @ [message],
            state := (state run)\<lparr>fired := fired (state run) @ [alert_key]\<rparr>,
            triggered := triggered run @ [alert_key]\<rparr>
      else run)"

definition intraday_key :: "string \<Rightarrow> real \<Rightarrow> string" where
  "intraday_key asset_key change_pct =
     ''intraday_'' @ asset_key @ ''_'' @ (if change_pct > 0 then ''+'' else ''-'')"

text \<open>\<^verbatim>\<open>thresholds.get(asset_key, default_threshold)\<close>, the default being 2.0.\<close>

definition threshold_for :: "config \<Rightarrow> string \<Rightarrow> real" where
  "threshold_for conf asset_key =
     (case map_of (thresholds conf) asset_key of
        Some t \<Rightarrow> t
      | None \<Rightarrow> (case default_threshold_pct conf of Some d \<Rightarrow> d | None \<Rightarrow> 2))"

definition check_intraday ::
  "config \<Rightarrow> string \<Rightarrow> asset_config \<Rightarrow> price_data \<Rightarrow> watch_run \<Rightarrow> watch_run" where
  "check_intraday conf asset_key cfg pd run =
     (let current = price_gbp pd; open_price = open_gbp pd;
          threshold = threshold_for conf asset_key
      in if open_price \<noteq> 0 then
           let change_pct = (current - open_price) / open_price * 100
           in if \<bar>change_pct\<bar> \<ge> threshold then
                fire (intraday_key asset_key change_pct)
                  ((if change_pct > 0 then Spike else Dip)
                     (name cfg) current open_price change_pct threshold) run
              else run
         else run)"

definition check_above ::
  "config \<Rightarrow> string \<Rightarrow> asset_config \<Rightarrow> price_data \<Rightarrow> watch_run \<Rightarrow> watch_run" where
  "check_above conf asset_key cfg pd run =
     (case map_of (price_alerts conf) asset_key of
        None \<Rightarrow> run
      | Some limits \<Rightarrow>
          (case above limits of
             None \<Rightarrow> run
           | Some a \<Rightarrow>
               if price_gbp pd \<ge> a then
                 fire (''price_above_'' @ asset_key) (PriceAbove (name cfg) a (price_gbp pd)) run
               else run))"

definition check_below ::
  "config \<Rightarrow> string \<Rightarrow> asset_config \<Rightarrow> price_data \<Rightarrow> watch_run \<Rightarrow> watch_run" where
  "check_below conf asset_key cfg pd run =
     (case map_of (price_alerts conf) asset_key of
        None \<Rightarrow> run
      | Some limits \<Rightarrow>
          (case below limits of
             None \<Rightarrow> run
           | Some b \<Rightarrow>
               if price_gbp pd \<le> b then
                 fire (''price_below_'' @ asset_key) (PriceBelow (name cfg) b (price_gbp pd)) run
               else run))"

text \<open>One iteration of the loop (lines 447 to 498).\<close>

fun watch_asset ::
  "config \<Rightarrow> real option \<Rightarrow> provider \<Rightarrow> string \<times> asset_config \<Rightarrow> watch_run \<Rightarrow> watch_run" where
  "watch_asset conf rate yf (asset_key, cfg) run =
     (case get_asset_price asset_key cfg rate yf of
        None \<Rightarrow> run
      | Some pd \<Rightarrow>
          check_below conf asset_key cfg pd
            (check_above conf asset_key cfg pd
              (check_intraday conf asset_key cfg pd run)))"

definition watch_loop ::
  "config \<Rightarrow> real option \<Rightarrow> provider \<Rightarrow> (string \<times> asset_config) list \<Rightarrow> watch_run \<Rightarrow> watch_run" where
  "watch_loop conf rate yf assets run = fold (watch_asset conf rate yf) assets run"

text \<open>
  \<^verbatim>\<open>cmd_watch\<close>: \<open>stored\<close> is the alert-state file before the run, \<open>today_load\<close> and
  \<open>today_save\<close> are the clock readings of \<^verbatim>\<open>load_alerts_state\<close> and
  \<^verbatim>\<open>save_alerts_state\<close>. The result is the file after the run, the alerts sent and the
  keys logged.
\<close>

definition cmd_watch ::
  "config \<Rightarrow> string \<Rightarrow> string \<Rightarrow> provider \<Rightarrow> alerts_state option \<Rightarrow>
     alerts_state option \<times> alert list \<times> string list" where
  "cmd_watch conf today_load today_save yf stored =
     (let st = load_alerts_state today_load stored;
          rate = get_gbp_usd_rate yf;
          run = watch_loop conf rate yf ASSETS \<lparr>state = st, alerts_to_send = [], triggered = []\<rparr>
      in (Some (save_alerts_state today_save (state run)), alerts_to_send run, triggered run))"

section \<open>Notions used to state the properties\<close>

text \<open>
  The watch command run once for each provider reading of a list, every clock reading
  giving the same date, each run loading the file that the previous one saved. The result
  is the last file with all alerts and all logged keys in order.
\<close>

fun watch_cycles ::
  "config \<Rightarrow> string \<Rightarrow> provider list \<Rightarrow> alerts_state option \<Rightarrow>
     alerts_state option \<times> alert list \<times> string list" where
  "watch_cycles conf today [] stored = (stored, [], [])"
| "watch_cycles conf today (yf # yfs) stored =
     (case cmd_watch conf today today yf stored of
        (stored', alerts, keys) \<Rightarrow>
          (case watch_cycles conf today yfs stored' of
             (stored'', alerts', keys') \<Rightarrow> (stored'', alerts @ alerts', keys @ keys')))"

text \<open>
  The intraday condition as the specification words it: the instrument has a canonical
  price, its open is not zero and the absolute change meets the threshold; the value is the
  alert key of the move.
\<close>

definition intraday_move :: "config \<Rightarrow> provider \<Rightarrow> string \<Rightarrow> asset_config \<Rightarrow> string option" where
  "intraday_move conf yf asset_key cfg =
     (case get_asset_price asset_key cfg (get_gbp_usd_rate yf) yf of
        None \<Rightarrow> None
      | Some pd \<Rightarrow>
          if open_gbp pd \<noteq> 0 \<and>
             threshold_for conf asset_key \<le> \<bar>(price_gbp pd - open_gbp pd) / open_gbp pd * 100\<bar>
          then Some (intraday_key asset_key ((price_gbp pd - open_gbp pd) / open_gbp pd * 100))
          else None)"



text \<open>
  The invariant of the watch loop, relative to the fired list \<open>f0\<close> loaded at the start:
  the fired list is \<open>f0\<close> followed by the logged keys, no key is logged twice or is in
  \<open>f0\<close>, and messages and logged keys go in step.
\<close>

definition dedup_inv :: "string list \<Rightarrow> watch_run \<Rightarrow> bool" where
  "dedup_inv f0 run =
     (fired (state run) = f0 @ triggered run \<and> distinct (triggered run) \<and> set (triggered run) \<inter> set f0 = {} \<and>
      length (alerts_to_send run) = length (triggered run))"

section \<open>Example data\<close>

text \<open>A provider that knows the given symbols and raises for every other.\<close>

definition market :: "(string \<times> bar list) list \<Rightarrow> provider" where
  "market quotes symbol =
     (case map_of quotes symbol of None \<Rightarrow> Inl ProviderError | Some data \<Rightarrow> Inr data)"

definition morning :: provider where
  "morning = market [(''ISWD.L'', [\<lparr>bar_open = 640, bar_close = 650\<rparr>]),
                     (''GBPUSD=X'', [\<lparr>bar_open = 1, bar_close = 5 / 4\<rparr>])]"

definition evening :: provider where
  "evening = market [(''ISWD.L'', [\<lparr>bar_open = 640, bar_close = 660\<rparr>]),
                     (''HBKS.L'', [\<lparr>bar_open = 80, bar_close = 82\<rparr>])]"

definition rising :: provider where
  "rising = market [(''ISWD.L'', [\<lparr>bar_open = 50, bar_close = 103 / 2\<rparr>])]"

definition falling :: provider where
  "falling = market [(''ISWD.L'', [\<lparr>bar_open = 50, bar_close = 97 / 2\<rparr>])]"

definition demo_conf :: config where
  "demo_conf = \<lparr>default_threshold_pct = None, thresholds = [(''iswd'', 1)],
      price_alerts = [(''iswd'', \<lparr>above = Some 60, below = None\<rparr>)]\<rparr>"

definition demo_history :: history where
  "demo_history = \<lparr>entries =
     [\<lparr>date = ''2024-03-05'', prices = [(''iswd'', Some 8), (''hbks'', None)], gbp_usd_rate = None\<rparr>,
      \<lparr>date = ''2024-03-07'', prices = [(''iswd'', Some 12)], gbp_usd_rate = Some (5 / 4)\<rparr>,
      \<lparr>date = ''2024-03-04'', prices = [(''iswd'', Some 0), (''hbks'', Some 3)], gbp_usd_rate = None\<rparr>,
      \<lparr>date = ''2024-03-06'', prices = [(''iswd'', Some 10)], gbp_usd_rate = None\<rparr>]\<rparr>"

lemmas quote_defs =
  get_asset_price_def get_asset_price_try_def get_gbp_usd_rate_def bind_err_def py_div_def
  endswith_def current_raw_def open_raw_def prev_close_raw_def PENCE_THRESHOLD_def
  ASSETS_def gold_gbp_def iswd_def hbks_def market_def Let_def

lemmas watch_defs =
  cmd_watch_def watch_loop_def load_alerts_state_def save_alerts_state_def check_intraday_def
  check_above_def check_below_def fire_def threshold_for_def intraday_key_def

lemmas trend_defs =
  calculate_trend_def trend_points_def relevant_entries_def has_price_def entry_price_def
  sort_date_desc_def py_index_def

lemmas summary_defs =
  cmd_summary_def load_history_def save_history_def HISTORY_DAYS_def price_line_def
  rate_lines_def

section \<open>Quote normalisation: properties\<close>

text \<open>
  Claim C2. On a market whose ticker ends in \<^verbatim>\<open>.L\<close>, a raw current value above 100 makes
  the current, open and previous-close values all be divided by 100, and the currency
  conversion is applied to the divided values; a raw current value of at most 100 leaves all
  three as they are. Stated for both native currencies: for a GBP-native instrument the
  GBP fields are the (divided) raw values and the USD fields are these times the rate; for a
  USD-native instrument with a usable rate the USD fields are the (divided) raw values and
  the GBP fields are these divided by the rate.
\<close>

theorem pence_division_all_or_none:
  assumes "yf (ticker cfg) = Inr data" and "data \<noteq> []" and "endswith (ticker cfg) ''.L''"
  defines "c \<equiv> current_raw data" and "p \<equiv> open_raw data" and "q \<equiv> prev_close_raw data"
  shows "(100 < c \<and> native_currency cfg \<noteq> ''USD'' \<longrightarrow>
           get_asset_price k cfg rate yf =
             Some \<lparr>price_gbp = c / 100, open_gbp = p / 100, prev_close_gbp = q / 100,
                    price_usd = map_option (\<lambda>r. c / 100 * r) rate,
                    open_usd = map_option (\<lambda>r. p / 100 * r) rate,
                    prev_close_usd = map_option (\<lambda>r. q / 100 * r) rate\<rparr>) \<and>
         (100 < c \<and> native_currency cfg = ''USD'' \<and> rate = Some r \<and> r \<noteq> 0 \<longrightarrow>
           get_asset_price k cfg rate yf =
             Some \<lparr>price_gbp = c / 100 / r, open_gbp = p / 100 / r, prev_close_gbp = q / 100 / r,
                    price_usd = Some (c / 100), open_usd = Some (p / 100),
                    prev_close_usd = Some (q / 100)\<rparr>) \<and>
         (c \<le> 100 \<and> native_currency cfg \<noteq> ''USD'' \<longrightarrow>
           get_asset_price k cfg rate yf =
             Some \<lparr>price_gbp = c, open_gbp = p, prev_close_gbp = q,
                    price_usd = map_option (\<lambda>r. c * r) rate,
                    open_usd = map_option (\<lambda>r. p * r) rate,
                    prev_close_usd = map_option (\<lambda>r. q * r) rate\<rparr>) \<and>
         (c \<le> 100 \<and> native_currency cfg = ''USD'' \<and> rate = Some r \<and> r \<noteq> 0 \<longrightarrow>
           get_asset_price k cfg rate yf =
             Some \<lparr>price_gbp = c / r, open_gbp = p / r, prev_close_gbp = q / r,
                    price_usd = Some c, open_usd = Some p, prev_close_usd = Some q\<rparr>)"
  using assms
  by (cases rate)
    (simp_all add: get_asset_price_def get_asset_price_try_def bind_err_def py_div_def
      PENCE_THRESHOLD_def Let_def)

text \<open>
  The specification's example: ISWD quoted at 650 pence with a rate of 1.25 is 6.50 GBP and
  8.125 USD; quoted at 95 it is taken to be pounds already.
\<close>

theorem pence_division_all_or_none_witness:
  "get_asset_price ''iswd'' iswd (Some (5 / 4))
     (\<lambda>s. Inr [\<lparr>bar_open = 640, bar_close = 644\<rparr>, \<lparr>bar_open = 648, bar_close = 650\<rparr>]) =
     Some \<lparr>price_gbp = 13 / 2, open_gbp = 162 / 25, prev_close_gbp = 161 / 25,
            price_usd = Some (65 / 8), open_usd = Some (81 / 10), prev_close_usd = Some (161 / 20)\<rparr> \<and>
   get_asset_price ''iswd'' iswd (Some (5 / 4))
     (\<lambda>s. Inr [\<lparr>bar_open = 96, bar_close = 95\<rparr>]) =
     Some \<lparr>price_gbp = 95, open_gbp = 96, prev_close_gbp = 96,
            price_usd = Some (475 / 4), open_usd = Some 120, prev_close_usd = Some 120\<rparr>"
  using pence_division_all_or_none [of
      "\<lambda>s. Inr [\<lparr>bar_open = 640, bar_close = 644\<rparr>, \<lparr>bar_open = 648, bar_close = 650\<rparr>]" iswd
      "[\<lparr>bar_open = 640, bar_close = 644\<rparr>, \<lparr>bar_open = 648, bar_close = 650\<rparr>]"
      "''iswd''" "Some (5 / 4)" 1]
    pence_division_all_or_none [of
      "\<lambda>s. Inr [\<lparr>bar_open = 96, bar_close = 95\<rparr>]" iswd
      "[\<lparr>bar_open = 96, bar_close = 95\<rparr>]" "''iswd''" "Some (5 / 4)" 1]
  by (simp add: iswd_def endswith_def current_raw_def open_raw_def prev_close_raw_def)

text \<open>
  Claim C3. With no exchange rate, a USD-native instrument yields no canonical price at all,
  whatever the provider returns. A GBP-native instrument whose quote was obtained still
  yields the GBP price, open and previous close (the raw values, divided by 100 when the
  pence rule applies), and its three USD fields are absent.
\<close>

theorem no_rate_usd_fails_gbp_survives:
  "(native_currency cfg = ''USD'' \<longrightarrow> get_asset_price k cfg None yf = None) \<and>
   (native_currency cfg = ''GBP'' \<and> yf (ticker cfg) = Inr data \<and> data \<noteq> [] \<longrightarrow>
      (\<exists>pd. get_asset_price k cfg None yf = Some pd \<and>
         price_usd pd = None \<and> open_usd pd = None \<and> prev_close_usd pd = None \<and>
         (let pence = (endswith (ticker cfg) ''.L'' \<and> 100 < current_raw data) in
            price_gbp pd = (if pence then current_raw data / 100 else current_raw data) \<and>
            open_gbp pd = (if pence then open_raw data / 100 else open_raw data) \<and>
            prev_close_gbp pd =
              (if pence then prev_close_raw data / 100 else prev_close_raw data))))"
proof (intro conjI impI)
  assume "native_currency cfg = ''USD''"
  then show "get_asset_price k cfg None yf = None"
    by (cases "yf (ticker cfg)")
      (simp_all add: get_asset_price_def get_asset_price_try_def bind_err_def Let_def)
next
  assume "native_currency cfg = ''GBP'' \<and> yf (ticker cfg) = Inr data \<and> data \<noteq> []"
  then show "\<exists>pd. get_asset_price k cfg None yf = Some pd \<and>
         price_usd pd = None \<and> open_usd pd = None \<and> prev_close_usd pd = None \<and>
         (let pence = (endswith (ticker cfg) ''.L'' \<and> 100 < current_raw data) in
            price_gbp pd = (if pence then current_raw data / 100 else current_raw data) \<and>
            open_gbp pd = (if pence then open_raw data / 100 else open_raw data) \<and>
            prev_close_gbp pd =
              (if pence then prev_close_raw data / 100 else prev_close_raw data))"
    by (simp add: get_asset_price_def get_asset_price_try_def bind_err_def Let_def
        PENCE_THRESHOLD_def)
qed

theorem no_rate_usd_fails_gbp_survives_witness:
  "get_asset_price ''gold_gbp'' gold_gbp None
     (\<lambda>s. Inr [\<lparr>bar_open = 2000, bar_close = 2010\<rparr>]) = None \<and>
   (\<exists>pd. get_asset_price ''hbks'' hbks None
       (\<lambda>s. Inr [\<lparr>bar_open = 640, bar_close = 650\<rparr>]) = Some pd \<and>
     price_usd pd = None \<and> open_usd pd = None \<and> prev_close_usd pd = None \<and>
     price_gbp pd = 13 / 2 \<and> open_gbp pd = 32 / 5 \<and> prev_close_gbp pd = 32 / 5)"
  using no_rate_usd_fails_gbp_survives [of gold_gbp "''gold_gbp''"
      "\<lambda>s. Inr [\<lparr>bar_open = 2000, bar_close = 2010\<rparr>]" "[]"]
    no_rate_usd_fails_gbp_survives [of hbks "''hbks''"
      "\<lambda>s. Inr [\<lparr>bar_open = 640, bar_close = 650\<rparr>]" "[\<lparr>bar_open = 640, bar_close = 650\<rparr>]"]
  by (simp add: gold_gbp_def hbks_def endswith_def current_raw_def open_raw_def
      prev_close_raw_def)

section \<open>The trend calculator: properties\<close>

lemma length_sort_date_desc: "length (sort_date_desc xs) = length xs"
  by (simp add: sort_date_desc_def)

lemma set_sort_date_desc: "set (sort_date_desc xs) = set xs"
  by (simp add: sort_date_desc_def)

lemma mset_sort_date_desc: "mset (sort_date_desc xs) = mset xs"
  by (simp add: sort_date_desc_def)

lemma sorted_sort_date_desc: "sorted_wrt (\<lambda>a b. date b \<le> date a) (sort_date_desc xs)"
proof -
  have "sorted (map date (sort_key date (rev xs)))"
    by (rule sorted_sort_key)
  then have "sorted_wrt (\<lambda>a b. date a \<le> date b) (sort_key date (rev xs))"
    by (simp add: sorted_map)
  then show ?thesis
    by (simp add: sort_date_desc_def sorted_wrt_rev)
qed

lemma newest_first:
  assumes "sorted_wrt (\<lambda>a b. date b \<le> date a) ys" and "e \<in> set ys"
  shows "date e \<le> date (hd ys)"
  using assms by (cases ys) auto

lemma oldest_last:
  assumes "sorted_wrt (\<lambda>a b. date b \<le> date a) ys" and "e \<in> set ys"
  shows "date (last ys) \<le> date e"
  using assms by (cases ys rule: rev_cases) (auto simp: sorted_wrt_append)

lemma sort_date_desc_hd: "e \<in> set xs \<Longrightarrow> date e \<le> date (hd (sort_date_desc xs))"
  using newest_first [OF sorted_sort_date_desc, of e xs] by (simp add: set_sort_date_desc)

lemma sort_date_desc_last: "e \<in> set xs \<Longrightarrow> date (last (sort_date_desc xs)) \<le> date e"
  using oldest_last [OF sorted_sort_date_desc, of e xs] by (simp add: set_sort_date_desc)

lemma entry_price_has_price: "has_price k e \<Longrightarrow> \<exists>v. entry_price k e = Inr v"
  by (auto simp: has_price_def entry_price_def split: option.splits)

lemma py_index_nonneg: "0 \<le> i \<Longrightarrow> i < int (length xs) \<Longrightarrow> py_index xs i = Inr (xs ! nat i)"
  by (simp add: py_index_def)

lemma py_index_last: "xs \<noteq> [] \<Longrightarrow> py_index xs (- 1) = Inr (last xs)"
  by (cases xs rule: rev_cases) (auto simp: py_index_def nth_append nat_add_distrib)

lemma trend_points_short:
  "length (relevant_entries h k) < 2 \<Longrightarrow> trend_points h k days = Inr None"
  by (simp add: trend_points_def)

lemma sorted_relevant_has_price:
  "e \<in> set (sort_date_desc (relevant_entries h k)) \<Longrightarrow> has_price k e"
  by (simp add: set_sort_date_desc relevant_entries_def)

lemma trend_points_long:
  assumes "2 \<le> length (relevant_entries h k)" and "0 \<le> days"
  defines "srt \<equiv> sort_date_desc (relevant_entries h k)"
  defines "older \<equiv> (if int (length srt) \<le> days then last srt else srt ! nat days)"
  shows "\<exists>current past. entry_price k (hd srt) = Inr current \<and> entry_price k older = Inr past \<and>
           trend_points h k days = Inr (Some (current, past))"
proof -
  have len: "length srt = length (relevant_entries h k)"
    by (simp add: srt_def length_sort_date_desc)
  with assms(1) have ne: "srt \<noteq> []" by auto
  have idx0: "py_index srt 0 = Inr (hd srt)"
    using ne by (simp add: py_index_def hd_conv_nth)
  have idx: "(if int (length srt) \<le> days then py_index srt (- 1) else py_index srt days) = Inr older"
    using ne assms(2) by (simp add: older_def py_index_last py_index_nonneg)
  have "hd srt \<in> set srt" using ne by simp
  then obtain current where cur: "entry_price k (hd srt) = Inr current"
    using sorted_relevant_has_price entry_price_has_price unfolding srt_def by blast
  have "older \<in> set srt"
    using ne assms(2) by (auto simp: older_def)
  then obtain past where past: "entry_price k older = Inr past"
    using sorted_relevant_has_price entry_price_has_price unfolding srt_def by blast
  have "trend_points h k days = Inr (Some (current, past))"
    using assms(1) idx0 idx cur past len
    by (simp add: trend_points_def Let_def bind_err_def srt_def [symmetric])
  with cur past show ?thesis by blast
qed


text \<open>
  Claim C4. For every history, instrument and window size \<open>n\<close>: with fewer than two entries
  that hold a non-null price for the instrument the trend is not available. With at least
  two, let \<open>srt\<close> be these entries sorted by date, latest first (a rearrangement of them in
  descending date order, so its head has the latest date and its last element the earliest).
  The current value is the price of the head of \<open>srt\<close>. The past value is the price of the
  last element of \<open>srt\<close>, the oldest entry, when the number of entries is at most \<open>n\<close>, and
  the price of the entry at position \<open>n\<close> of \<open>srt\<close> otherwise. The trend is the percentage
  change between the two when the past value is not zero.
\<close>

theorem trend_window_selection:
  fixes h :: history and k :: string and n :: nat
  defines "rel \<equiv> relevant_entries h k"
  defines "srt \<equiv> sort_date_desc (relevant_entries h k)"
  shows "(length rel < 2 \<longrightarrow> calculate_trend h k (int n) = Inr None) \<and>
         (2 \<le> length rel \<longrightarrow>
            mset srt = mset rel \<and> sorted_wrt (\<lambda>a b. date b \<le> date a) srt \<and>
            (\<forall>e\<in>set rel. date (last srt) \<le> date e \<and> date e \<le> date (hd srt)) \<and>
            (\<exists>current past.
               entry_price k (hd srt) = Inr current \<and>
               entry_price k (if length rel \<le> n then last srt else srt ! n) = Inr past \<and>
               trend_points h k (int n) = Inr (Some (current, past)) \<and>
               calculate_trend h k (int n) =
                 (if past = 0 then Inr None else Inr (Some ((current - past) / past * 100)))))"
proof (intro conjI impI)
  assume "length rel < 2"
  then show "calculate_trend h k (int n) = Inr None"
    by (simp add: calculate_trend_def rel_def trend_points_short bind_err_def)
next
  show "mset srt = mset rel"
    by (simp add: srt_def rel_def mset_sort_date_desc)
next
  show "sorted_wrt (\<lambda>a b. date b \<le> date a) srt"
    unfolding srt_def by (rule sorted_sort_date_desc)
next
  show "\<forall>e\<in>set rel. date (last srt) \<le> date e \<and> date e \<le> date (hd srt)"
    unfolding srt_def rel_def using sort_date_desc_hd sort_date_desc_last by blast
next
  assume long: "2 \<le> length rel"
  have "\<exists>current past.
          entry_price k (hd srt) = Inr current \<and>
          entry_price k (if length rel \<le> n then last srt else srt ! n) = Inr past \<and>
          trend_points h k (int n) = Inr (Some (current, past))"
    using trend_points_long [of h k "int n"] long
    unfolding rel_def srt_def length_sort_date_desc
    by (cases "length (relevant_entries h k) \<le> n") simp_all
  then obtain current past where
    cur: "entry_price k (hd srt) = Inr current" and
    past: "entry_price k (if length rel \<le> n then last srt else srt ! n) = Inr past" and
    pts: "trend_points h k (int n) = Inr (Some (current, past))"
    by blast
  have "calculate_trend h k (int n) =
          (if past = 0 then Inr None else Inr (Some ((current - past) / past * 100)))"
    by (simp add: calculate_trend_def pts bind_err_def py_div_def)
  with cur past pts
  show "\<exists>current past.
               entry_price k (hd srt) = Inr current \<and>
               entry_price k (if length rel \<le> n then last srt else srt ! n) = Inr past \<and>
               trend_points h k (int n) = Inr (Some (current, past)) \<and>
               calculate_trend h k (int n) =
                 (if past = 0 then Inr None else Inr (Some ((current - past) / past * 100)))"
    by blast
qed

theorem trend_window_selection_witness:
  "calculate_trend demo_history ''iswd'' 2 = Inr (Some 50) \<and>
   calculate_trend demo_history ''iswd'' 1 = Inr (Some 20) \<and>
   calculate_trend demo_history ''iswd'' 4 = Inr None \<and>
   calculate_trend demo_history ''iswd'' 22 = Inr None \<and>
   calculate_trend demo_history ''hbks'' 5 = Inr None"
  using trend_window_selection [of demo_history "''iswd''" 2]
    trend_window_selection [of demo_history "''iswd''" 1]
    trend_window_selection [of demo_history "''iswd''" 4]
    trend_window_selection [of demo_history "''iswd''" 22]
    trend_window_selection [of demo_history "''hbks''" 5]
  by (simp add: demo_history_def relevant_entries_def has_price_def sort_date_desc_def
      entry_price_def)

text \<open>
  Claim C9. The trend calculation never raises a division-by-zero error, for any history,
  instrument and window. When the past value is 0 the result is not-available. Whenever a
  percentage is returned, it was computed by dividing by a past value that is not zero.
\<close>

theorem trend_no_zero_division:
  "calculate_trend h k days \<noteq> Inl ZeroDivisionError \<and>
   (trend_points h k days = Inr (Some (current, 0)) \<longrightarrow> calculate_trend h k days = Inr None) \<and>
   (calculate_trend h k days = Inr (Some t) \<longrightarrow>
      (\<exists>current past. trend_points h k days = Inr (Some (current, past)) \<and> past \<noteq> 0 \<and>
         t = (current - past) / past * 100))"
proof (intro conjI impI)
  have "trend_points h k days \<noteq> Inl ZeroDivisionError"
    by (auto simp: trend_points_def Let_def bind_err_def py_index_def entry_price_def
        split: sum.splits option.splits if_splits)
  then show "calculate_trend h k days \<noteq> Inl ZeroDivisionError"
    by (auto simp: calculate_trend_def bind_err_def py_div_def split: sum.splits option.splits)
next
  assume "trend_points h k days = Inr (Some (current, 0))"
  then show "calculate_trend h k days = Inr None"
    by (simp add: calculate_trend_def bind_err_def)
next
  assume "calculate_trend h k days = Inr (Some t)"
  then show "\<exists>current past. trend_points h k days = Inr (Some (current, past)) \<and> past \<noteq> 0 \<and>
         t = (current - past) / past * 100"
    by (auto simp: calculate_trend_def bind_err_def py_div_def
        split: sum.splits option.splits if_splits)
qed

theorem trend_no_zero_division_witness:
  "trend_points demo_history ''iswd'' 5 = Inr (Some (12, 0)) \<and>
   calculate_trend demo_history ''iswd'' 5 = Inr None \<and>
   calculate_trend demo_history ''iswd'' 3 \<noteq> Inl ZeroDivisionError \<and>
   trend_points demo_history ''iswd'' 2 = Inr (Some (12, 8)) \<and>
   calculate_trend demo_history ''iswd'' 2 = Inr (Some 50)"
  using trend_no_zero_division [of demo_history "''iswd''" 5 12 0]
    trend_no_zero_division [of demo_history "''iswd''" 3 12 0]
    trend_no_zero_division [of demo_history "''iswd''" 2 12 50]
  by (simp add: demo_history_def relevant_entries_def has_price_def sort_date_desc_def
      entry_price_def trend_points_def calculate_trend_def bind_err_def py_index_def py_div_def)

section \<open>The history store: properties\<close>

text \<open>
  Claim C7. After a save, every entry that remains has a date string that is not below the
  cut-off string, which is the date 90 days before the current London date; every entry of
  the history whose date string is at or above the cut-off remains; and the entries that
  remain are exactly these, unchanged and in their order. The comparison is the one on
  strings.
\<close>

theorem save_history_retention:
  "(\<forall>e\<in>set (entries (save_history cal now h)). \<not> date e < cal (now - 90)) \<and>
   (\<forall>e\<in>set (entries h). cal (now - 90) \<le> date e \<longrightarrow> e \<in> set (entries (save_history cal now h))) \<and>
   entries (save_history cal now h) = filter (\<lambda>e. \<not> date e < cal (now - 90)) (entries h)"
  by (auto simp: save_history_def HISTORY_DAYS_def Let_def not_less intro: filter_cong)

theorem save_history_retention_witness:
  "map date (entries (save_history (\<lambda>d. if d = 10 then ''2024-01-12'' else ''2024-04-11'') 100
     \<lparr>entries = [\<lparr>date = ''2024-01-11'', prices = [], gbp_usd_rate = None\<rparr>,
                 \<lparr>date = ''2024-01-12'', prices = [], gbp_usd_rate = None\<rparr>,
                 \<lparr>date = ''2023-12-31'', prices = [], gbp_usd_rate = None\<rparr>,
                 \<lparr>date = ''2024-04-11'', prices = [], gbp_usd_rate = None\<rparr>]\<rparr>)) =
     [''2024-01-12'', ''2024-04-11'']"
  using save_history_retention [of "\<lambda>d. if d = 10 then ''2024-01-12'' else ''2024-04-11''" 100
     "\<lparr>entries = [\<lparr>date = ''2024-01-11'', prices = [], gbp_usd_rate = None\<rparr>,
                 \<lparr>date = ''2024-01-12'', prices = [], gbp_usd_rate = None\<rparr>,
                 \<lparr>date = ''2023-12-31'', prices = [], gbp_usd_rate = None\<rparr>,
                 \<lparr>date = ''2024-04-11'', prices = [], gbp_usd_rate = None\<rparr>]\<rparr>"]
  by simp

section \<open>The alert state: properties\<close>

text \<open>
  Claim C5. Loading a persisted alert state whose date is not today's date gives the state
  with today's date and an empty fired list, whatever was fired before; loading one whose
  date is today's date gives the persisted state unchanged.
\<close>

theorem load_alerts_state_new_day:
  "(state_date st \<noteq> Some today \<longrightarrow>
      load_alerts_state today (Some st) = \<lparr>state_date = Some today, fired = []\<rparr>) \<and>
   (state_date st = Some today \<longrightarrow> load_alerts_state today (Some st) = st)"
  by (simp add: load_alerts_state_def)

theorem load_alerts_state_new_day_witness:
  "load_alerts_state ''2024-03-08''
     (Some \<lparr>state_date = Some ''2024-03-07'', fired = [''intraday_iswd_+'', ''price_above_hbks'']\<rparr>) =
     \<lparr>state_date = Some ''2024-03-08'', fired = []\<rparr> \<and>
   load_alerts_state ''2024-03-07''
     (Some \<lparr>state_date = Some ''2024-03-07'', fired = [''intraday_iswd_+'', ''price_above_hbks'']\<rparr>) =
     \<lparr>state_date = Some ''2024-03-07'', fired = [''intraday_iswd_+'', ''price_above_hbks'']\<rparr>"
  using load_alerts_state_new_day [of
      "\<lparr>state_date = Some ''2024-03-07'', fired = [''intraday_iswd_+'', ''price_above_hbks'']\<rparr>"
      "''2024-03-08''"]
    load_alerts_state_new_day [of
      "\<lparr>state_date = Some ''2024-03-07'', fired = [''intraday_iswd_+'', ''price_above_hbks'']\<rparr>"
      "''2024-03-07''"]
  by simp

text \<open>
  Claim C10. With no alert-state file, loading gives an empty fired list and a null date, not
  today's date. Saving overwrites the date with the current date, whatever it was, and
  changes nothing else; so a watch cycle that starts with no file leaves a file stamped with
  the date read by the save.
\<close>

theorem missing_state_file_date_null:
  "load_alerts_state today None = \<lparr>state_date = None, fired = []\<rparr> \<and>
   state_date (load_alerts_state today None) \<noteq> Some today \<and>
   save_alerts_state today' st = st\<lparr>state_date := Some today'\<rparr> \<and>
   (\<exists>st'. fst (cmd_watch conf today today' yf None) = Some st' \<and> state_date st' = Some today')"
  by (simp add: load_alerts_state_def save_alerts_state_def cmd_watch_def Let_def)

theorem missing_state_file_date_null_witness:
  "load_alerts_state ''2024-03-08'' None = \<lparr>state_date = None, fired = []\<rparr> \<and>
   save_alerts_state ''2024-03-08'' \<lparr>state_date = None, fired = [''price_below_hbks'']\<rparr> =
     \<lparr>state_date = Some ''2024-03-08'', fired = [''price_below_hbks'']\<rparr> \<and>
   save_alerts_state ''2024-03-08'' \<lparr>state_date = Some ''2024-03-07'', fired = []\<rparr> =
     \<lparr>state_date = Some ''2024-03-08'', fired = []\<rparr>"
  using missing_state_file_date_null [of "''2024-03-08''" "''2024-03-08''"
      "\<lparr>state_date = None, fired = [''price_below_hbks'']\<rparr>"]
    missing_state_file_date_null [of "''2024-03-08''" "''2024-03-08''"
      "\<lparr>state_date = Some ''2024-03-07'', fired = []\<rparr>"]
  by simp

section \<open>The intraday watch: the fired keys\<close>

lemma fire_inv: "dedup_inv f0 run \<Longrightarrow> dedup_inv f0 (fire K m run)"
  by (auto simp: dedup_inv_def fire_def)

lemma fire_mono: "set (fired (state run)) \<subseteq> set (fired (state (fire K m run)))"
  by (auto simp: fire_def)

lemma fire_in: "K \<in> set (fired (state (fire K m run)))"
  by (auto simp: fire_def)

lemma check_intraday_inv: "dedup_inv f0 run \<Longrightarrow> dedup_inv f0 (check_intraday conf k cfg pd run)"
  by (simp add: check_intraday_def Let_def fire_inv)

lemma check_above_inv: "dedup_inv f0 run \<Longrightarrow> dedup_inv f0 (check_above conf k cfg pd run)"
  by (simp add: check_above_def fire_inv split: option.splits)

lemma check_below_inv: "dedup_inv f0 run \<Longrightarrow> dedup_inv f0 (check_below conf k cfg pd run)"
  by (simp add: check_below_def fire_inv split: option.splits)

lemma check_intraday_mono:
  "set (fired (state run)) \<subseteq> set (fired (state (check_intraday conf k cfg pd run)))"
  using fire_mono by (simp add: check_intraday_def Let_def)

lemma check_above_mono:
  "set (fired (state run)) \<subseteq> set (fired (state (check_above conf k cfg pd run)))"
  using fire_mono by (simp add: check_above_def split: option.splits)

lemma check_below_mono:
  "set (fired (state run)) \<subseteq> set (fired (state (check_below conf k cfg pd run)))"
  using fire_mono by (simp add: check_below_def split: option.splits)

lemma check_intraday_in:
  assumes "open_gbp pd \<noteq> 0"
    and "threshold_for conf k \<le> \<bar>(price_gbp pd - open_gbp pd) / open_gbp pd * 100\<bar>"
  shows "intraday_key k ((price_gbp pd - open_gbp pd) / open_gbp pd * 100)
           \<in> set (fired (state (check_intraday conf k cfg pd run)))"
  using assms fire_in by (simp add: check_intraday_def Let_def)

lemma watch_asset_inv: "dedup_inv f0 run \<Longrightarrow> dedup_inv f0 (watch_asset conf rate yf a run)"
  by (cases a) (simp add: check_intraday_inv check_above_inv check_below_inv split: option.splits)

lemma watch_asset_mono:
  "set (fired (state run)) \<subseteq> set (fired (state (watch_asset conf rate yf a run)))"
proof (cases a)
  case (Pair k cfg)
  show ?thesis
  proof (cases "get_asset_price k cfg rate yf")
    case None
    with Pair show ?thesis by simp
  next
    case (Some pd)
    have "set (fired (state run)) \<subseteq> set (fired (state (check_intraday conf k cfg pd run)))"
      by (rule check_intraday_mono)
    also have "\<dots> \<subseteq> set (fired (state (check_above conf k cfg pd (check_intraday conf k cfg pd run))))"
      by (rule check_above_mono)
    also have "\<dots> \<subseteq> set (fired (state (check_below conf k cfg pd
        (check_above conf k cfg pd (check_intraday conf k cfg pd run)))))"
      by (rule check_below_mono)
    finally show ?thesis using Pair Some by simp
  qed
qed

lemma watch_asset_triggered:
  assumes "get_asset_price k cfg rate yf = Some pd" and "open_gbp pd \<noteq> 0"
    and "threshold_for conf k \<le> \<bar>(price_gbp pd - open_gbp pd) / open_gbp pd * 100\<bar>"
  shows "intraday_key k ((price_gbp pd - open_gbp pd) / open_gbp pd * 100)
           \<in> set (fired (state (watch_asset conf rate yf (k, cfg) run)))"
proof -
  have "intraday_key k ((price_gbp pd - open_gbp pd) / open_gbp pd * 100)
           \<in> set (fired (state (check_intraday conf k cfg pd run)))"
    using assms(2,3) by (rule check_intraday_in)
  then show ?thesis
    using assms(1) check_above_mono check_below_mono by (simp add: subset_iff)
qed

lemma watch_loop_inv: "dedup_inv f0 run \<Longrightarrow> dedup_inv f0 (watch_loop conf rate yf assets run)"
  unfolding watch_loop_def
  by (induction assets arbitrary: run) (simp_all add: watch_asset_inv)

lemma watch_loop_mono:
  "set (fired (state run)) \<subseteq> set (fired (state (watch_loop conf rate yf assets run)))"
  unfolding watch_loop_def
proof (induction assets arbitrary: run)
  case Nil
  show ?case by simp
next
  case (Cons a assets)
  show ?case using watch_asset_mono Cons.IH by (fastforce simp: subset_iff)
qed

lemma watch_loop_triggered:
  assumes "(k, cfg) \<in> set assets" and "get_asset_price k cfg rate yf = Some pd"
    and "open_gbp pd \<noteq> 0"
    and "threshold_for conf k \<le> \<bar>(price_gbp pd - open_gbp pd) / open_gbp pd * 100\<bar>"
  shows "intraday_key k ((price_gbp pd - open_gbp pd) / open_gbp pd * 100)
           \<in> set (fired (state (watch_loop conf rate yf assets run)))"
  using assms(1)
proof (induction assets arbitrary: run)
  case Nil
  then show ?case by simp
next
  case (Cons a assets)
  show ?case
  proof (cases "a = (k, cfg)")
    case True
    have "intraday_key k ((price_gbp pd - open_gbp pd) / open_gbp pd * 100)
           \<in> set (fired (state (watch_asset conf rate yf (k, cfg) run)))"
      using assms(2-4) by (rule watch_asset_triggered)
    then show ?thesis
      using True watch_loop_mono [of "watch_asset conf rate yf (k, cfg) run" conf rate yf assets]
      by (auto simp: watch_loop_def)
  next
    case False
    with Cons.prems have "(k, cfg) \<in> set assets" by simp
    from Cons.IH [OF this] show ?thesis by (simp add: watch_loop_def)
  qed
qed

lemma count_list_distinct: "distinct xs \<Longrightarrow> count_list xs x = (if x \<in> set xs then 1 else 0)"
  by (induction xs) auto

lemma dedup_inv_start: "dedup_inv (fired st) \<lparr>state = st, alerts_to_send = [], triggered = []\<rparr>"
  by (simp add: dedup_inv_def)

lemma cmd_watch_cycle:
  assumes "cmd_watch conf today today yf file = (file', alerts, keys)"
  defines "f0 \<equiv> fired (load_alerts_state today file)"
  shows "\<exists>st'. file' = Some st' \<and> state_date st' = Some today \<and> fired st' = f0 @ keys"
    and "distinct keys" and "set keys \<inter> set f0 = {}" and "length alerts = length keys"
    and "(k, cfg) \<in> set ASSETS \<Longrightarrow> intraday_move conf yf k cfg = Some K \<Longrightarrow> K \<in> set (f0 @ keys)"
proof -
  define run where "run = watch_loop conf (get_gbp_usd_rate yf) yf ASSETS
      \<lparr>state = load_alerts_state today file, alerts_to_send = [], triggered = []\<rparr>"
  have inv: "dedup_inv f0 run"
    unfolding run_def f0_def by (rule watch_loop_inv) (rule dedup_inv_start)
  have res: "file' = Some (save_alerts_state today (state run))" "alerts = alerts_to_send run"
      "keys = triggered run"
    using assms(1) by (simp_all add: cmd_watch_def Let_def run_def)
  show "\<exists>st'. file' = Some st' \<and> state_date st' = Some today \<and> fired st' = f0 @ keys"
    using inv res by (simp add: dedup_inv_def save_alerts_state_def)
  show "distinct keys" "set keys \<inter> set f0 = {}" "length alerts = length keys"
    using inv res by (simp_all add: dedup_inv_def)
  show "K \<in> set (f0 @ keys)"
    if "(k, cfg) \<in> set ASSETS" and "intraday_move conf yf k cfg = Some K"
  proof -
    from that(2) obtain pd where pd: "get_asset_price k cfg (get_gbp_usd_rate yf) yf = Some pd"
      and nz: "open_gbp pd \<noteq> 0"
      and th: "threshold_for conf k \<le> \<bar>(price_gbp pd - open_gbp pd) / open_gbp pd * 100\<bar>"
      and K: "K = intraday_key k ((price_gbp pd - open_gbp pd) / open_gbp pd * 100)"
      by (auto simp: intraday_move_def split: option.splits if_splits)
    have "K \<in> set (fired (state run))"
      unfolding run_def K using that(1) pd nz th by (rule watch_loop_triggered)
    then show ?thesis using inv res by (simp add: dedup_inv_def)
  qed
qed

lemma load_after_save:
  "state_date st = Some today \<Longrightarrow> load_alerts_state today (Some st) = st"
  by (simp add: load_alerts_state_def)

lemma watch_cycles_day:
  "watch_cycles conf today yfs stored = (stored', alerts, keys) \<Longrightarrow>
     distinct keys \<and> set keys \<inter> set (fired (load_alerts_state today stored)) = {} \<and>
     length alerts = length keys \<and>
     fired (load_alerts_state today stored') = fired (load_alerts_state today stored) @ keys \<and>
     (\<forall>yf\<in>set yfs. \<forall>(k, cfg)\<in>set ASSETS. \<forall>K.
        intraday_move conf yf k cfg = Some K \<longrightarrow>
          K \<in> set (fired (load_alerts_state today stored) @ keys))"
proof (induction yfs arbitrary: stored stored' alerts keys)
  case Nil
  then show ?case by simp
next
  case (Cons yf yfs)
  obtain file1 alerts1 keys1 where c1: "cmd_watch conf today today yf stored = (file1, alerts1, keys1)"
    by (cases "cmd_watch conf today today yf stored") auto
  obtain file2 alerts2 keys2 where c2: "watch_cycles conf today yfs file1 = (file2, alerts2, keys2)"
    by (cases "watch_cycles conf today yfs file1") auto
  from Cons.prems c1 c2 have res: "stored' = file2" "alerts = alerts1 @ alerts2" "keys = keys1 @ keys2"
    by simp_all
  let ?f0 = "fired (load_alerts_state today stored)"
  from cmd_watch_cycle(1) [OF c1] obtain st1 where st1: "file1 = Some st1"
    "state_date st1 = Some today" "fired st1 = ?f0 @ keys1" by blast
  have f1: "fired (load_alerts_state today file1) = ?f0 @ keys1"
    using st1 by (simp add: load_after_save)
  note h1 = cmd_watch_cycle(2-4) [OF c1]
  note ih = Cons.IH [OF c2, unfolded f1]
  have trig1: "K \<in> set (?f0 @ keys1)"
    if "(k, cfg) \<in> set ASSETS" "intraday_move conf yf k cfg = Some K" for k cfg K
    using cmd_watch_cycle(5) [OF c1 that] .
  show ?case
  proof (intro conjI ballI)
    show "distinct keys" using h1 ih res by auto
    show "set keys \<inter> set ?f0 = {}" using h1 ih res by auto
    show "length alerts = length keys" using h1 ih res by simp
    show "fired (load_alerts_state today stored') = ?f0 @ keys" using ih res by simp
  next
    fix y a
    assume y: "y \<in> set (yf # yfs)" and a: "a \<in> set ASSETS"
    show "case a of (k, cfg) \<Rightarrow> \<forall>K. intraday_move conf y k cfg = Some K \<longrightarrow> K \<in> set (?f0 @ keys)"
    proof (cases "y = yf")
      case True
      then show ?thesis using trig1 a res by (cases a) auto
    next
      case False
      with y have "y \<in> set yfs" by simp
      with ih a show ?thesis using res by (cases a) fastforce
    qed
  qed
qed

text \<open>
  What holds of the fired keys in every case. The keys of a positive and of a non-positive
  intraday move of one instrument differ. When the intraday condition holds for an
  instrument, the check changes nothing if the key is already in the fired list, and
  otherwise appends the key to the fired list, logs it and adds one alert. Over watch cycles
  whose clock readings all give one date, starting from any alert-state file: no key is
  logged twice, no logged key was in the fired list that the first load returns, alerts and
  logged keys go in step, and a key whose intraday condition holds in some cycle for an
  instrument of \<^verbatim>\<open>ASSETS\<close> is logged exactly once when the first load did not return it
  and not at all when it did. The first load returns an empty fired list when there is no
  file or when the file carries another date. So an alert fires at most once per day in
  every case; whether a triggered alert fires at all depends on the file that the day
  starts from.
\<close>

theorem fired_keys_at_most_once_per_day:
  fixes pd :: price_data and run :: watch_run
  assumes day: "watch_cycles conf today yfs stored = (stored', alerts, keys)"
  defines "f0 \<equiv> fired (load_alerts_state today stored)"
  defines "chg \<equiv> (price_gbp pd - open_gbp pd) / open_gbp pd * 100"
  shows "(0 < c1 \<and> c2 \<le> 0 \<longrightarrow> intraday_key k c1 \<noteq> intraday_key k c2) \<and>
         (open_gbp pd \<noteq> 0 \<and> threshold_for conf k \<le> \<bar>chg\<bar> \<longrightarrow>
            (intraday_key k chg \<in> set (fired (state run)) \<longrightarrow>
               check_intraday conf k cfg pd run = run) \<and>
            (intraday_key k chg \<notin> set (fired (state run)) \<longrightarrow>
               fired (state (check_intraday conf k cfg pd run)) =
                 fired (state run) @ [intraday_key k chg] \<and>
               triggered (check_intraday conf k cfg pd run) =
                 triggered run @ [intraday_key k chg] \<and>
               length (alerts_to_send (check_intraday conf k cfg pd run)) =
                 Suc (length (alerts_to_send run)))) \<and>
         distinct keys \<and> set keys \<inter> set f0 = {} \<and> length alerts = length keys \<and>
         (\<forall>K. count_list keys K \<le> 1) \<and>
         (\<forall>yf\<in>set yfs. \<forall>(a, acfg)\<in>set ASSETS. \<forall>K.
            intraday_move conf yf a acfg = Some K \<longrightarrow>
              count_list keys K = (if K \<in> set f0 then 0 else 1)) \<and>
         ((\<forall>st. stored = Some st \<longrightarrow> state_date st \<noteq> Some today) \<longrightarrow> f0 = [])"
proof -
  note d = watch_cycles_day [OF day, folded f0_def]
  have dist: "distinct keys" and disj: "set keys \<inter> set f0 = {}"
    and len: "length alerts = length keys"
    using d by simp_all
  have trig: "K \<in> set (f0 @ keys)"
    if "yf \<in> set yfs" "(a, acfg) \<in> set ASSETS" "intraday_move conf yf a acfg = Some K"
    for yf a acfg K
    using d that by blast
  have keys_neq: "0 < c1 \<and> c2 \<le> 0 \<longrightarrow> intraday_key k c1 \<noteq> intraday_key k c2"
    by (simp add: intraday_key_def)
  have step: "open_gbp pd \<noteq> 0 \<and> threshold_for conf k \<le> \<bar>chg\<bar> \<longrightarrow>
            (intraday_key k chg \<in> set (fired (state run)) \<longrightarrow>
               check_intraday conf k cfg pd run = run) \<and>
            (intraday_key k chg \<notin> set (fired (state run)) \<longrightarrow>
               fired (state (check_intraday conf k cfg pd run)) =
                 fired (state run) @ [intraday_key k chg] \<and>
               triggered (check_intraday conf k cfg pd run) =
                 triggered run @ [intraday_key k chg] \<and>
               length (alerts_to_send (check_intraday conf k cfg pd run)) =
                 Suc (length (alerts_to_send run)))"
    by (simp add: check_intraday_def Let_def fire_def chg_def)
  have once: "\<forall>K. count_list keys K \<le> 1"
    using dist by (simp add: count_list_distinct)
  have exact: "\<forall>yf\<in>set yfs. \<forall>(a, acfg)\<in>set ASSETS. \<forall>K.
            intraday_move conf yf a acfg = Some K \<longrightarrow>
              count_list keys K = (if K \<in> set f0 then 0 else 1)"
  proof (intro ballI, clarify)
    fix yf a acfg K
    assume "yf \<in> set yfs" "(a, acfg) \<in> set ASSETS" "intraday_move conf yf a acfg = Some K"
    then have "K \<in> set (f0 @ keys)" by (rule trig)
    then show "count_list keys K = (if K \<in> set f0 then 0 else 1)"
      using dist disj by (auto simp: count_list_distinct)
  qed
  have fresh: "(\<forall>st. stored = Some st \<longrightarrow> state_date st \<noteq> Some today) \<longrightarrow> f0 = []"
    by (cases stored) (simp_all add: f0_def load_alerts_state_def)
  from keys_neq step dist disj len once exact fresh show ?thesis by blast
qed

text \<open>
  The specification's scenario: a rise of 3 per cent, then a fall of 3 per cent twice, then
  the rise again, on one day that starts with no file. Each of the two alerts fires once.
\<close>

theorem fired_keys_at_most_once_per_day_example:
  "watch_cycles demo_conf ''2024-03-07'' [rising, falling, falling, rising] None =
     (Some \<lparr>state_date = Some ''2024-03-07'', fired = [''intraday_iswd_+'', ''intraday_iswd_-'']\<rparr>,
      [Spike ''ISWD'' (103 / 2) 50 3 1, Dip ''ISWD'' (97 / 2) 50 (- 3) 1],
      [''intraday_iswd_+'', ''intraday_iswd_-'']) \<and>
   intraday_move demo_conf rising ''iswd'' iswd = Some ''intraday_iswd_+'' \<and>
   intraday_move demo_conf falling ''iswd'' iswd = Some ''intraday_iswd_-'' \<and>
   count_list [''intraday_iswd_+'', ''intraday_iswd_-''] ''intraday_iswd_+'' = 1 \<and>
   count_list [''intraday_iswd_+'', ''intraday_iswd_-''] ''intraday_iswd_-'' = 1"
proof -
  have day: "watch_cycles demo_conf ''2024-03-07'' [rising, falling, falling, rising] None =
     (Some \<lparr>state_date = Some ''2024-03-07'', fired = [''intraday_iswd_+'', ''intraday_iswd_-'']\<rparr>,
      [Spike ''ISWD'' (103 / 2) 50 3 1, Dip ''ISWD'' (97 / 2) 50 (- 3) 1],
      [''intraday_iswd_+'', ''intraday_iswd_-''])"
    by (simp add: quote_defs watch_defs demo_conf_def rising_def falling_def)
  have up: "intraday_move demo_conf rising ''iswd'' iswd = Some ''intraday_iswd_+''"
    by (simp add: intraday_move_def quote_defs watch_defs demo_conf_def rising_def)
  have down: "intraday_move demo_conf falling ''iswd'' iswd = Some ''intraday_iswd_-''"
    by (simp add: intraday_move_def quote_defs watch_defs demo_conf_def falling_def)
  from fired_keys_at_most_once_per_day [OF day] day up down
  show ?thesis by (simp add: ASSETS_def load_alerts_state_def)
qed

text \<open>
  Claim C1. The claim is that over the watch cycles of one calendar day a triggered positive
  move and a triggered negative move of one instrument each fire exactly once. The code
  breaks this on the day after a cycle that ran across midnight. \<^verbatim>\<open>load_alerts_state\<close> and
  \<^verbatim>\<open>save_alerts_state\<close> read the clock separately. A cycle that loads the file of 7 March on
  7 March keeps its fired keys, as it should; when it saves on 8 March it writes these keys
  under the date of 8 March. Every load of 8 March then finds today's date in the file and
  keeps the keys of 7 March, against the comment \<^verbatim>\<open>Reset if it's a new day\<close>: the rise and
  the fall of 8 March both meet the threshold and neither fires in any cycle of that day.
  When the same file of 7 March is not rewritten across midnight, the first load of 8 March
  resets it and both alerts fire once.
\<close>

theorem midnight_straddle_suppresses_alerts:
  "cmd_watch demo_conf ''2024-03-07'' ''2024-03-08'' rising
     (Some \<lparr>state_date = Some ''2024-03-07'',
            fired = [''intraday_iswd_+'', ''intraday_iswd_-'']\<rparr>) =
     (Some \<lparr>state_date = Some ''2024-03-08'',
            fired = [''intraday_iswd_+'', ''intraday_iswd_-'']\<rparr>, [], []) \<and>
   intraday_move demo_conf rising ''iswd'' iswd = Some ''intraday_iswd_+'' \<and>
   intraday_move demo_conf falling ''iswd'' iswd = Some ''intraday_iswd_-'' \<and>
   watch_cycles demo_conf ''2024-03-08'' [rising, falling, rising]
     (Some \<lparr>state_date = Some ''2024-03-08'',
            fired = [''intraday_iswd_+'', ''intraday_iswd_-'']\<rparr>) =
     (Some \<lparr>state_date = Some ''2024-03-08'',
            fired = [''intraday_iswd_+'', ''intraday_iswd_-'']\<rparr>, [], []) \<and>
   count_list (snd (snd (watch_cycles demo_conf ''2024-03-08'' [rising, falling, rising]
     (Some \<lparr>state_date = Some ''2024-03-08'',
            fired = [''intraday_iswd_+'', ''intraday_iswd_-'']\<rparr>)))) ''intraday_iswd_+'' = 0 \<and>
   count_list (snd (snd (watch_cycles demo_conf ''2024-03-08'' [rising, falling, rising]
     (Some \<lparr>state_date = Some ''2024-03-08'',
            fired = [''intraday_iswd_+'', ''intraday_iswd_-'']\<rparr>)))) ''intraday_iswd_-'' = 0 \<and>
   watch_cycles demo_conf ''2024-03-08'' [rising, falling, rising]
     (Some \<lparr>state_date = Some ''2024-03-07'',
            fired = [''intraday_iswd_+'', ''intraday_iswd_-'']\<rparr>) =
     (Some \<lparr>state_date = Some ''2024-03-08'',
            fired = [''intraday_iswd_+'', ''intraday_iswd_-'']\<rparr>,
      [Spike ''ISWD'' (103 / 2) 50 3 1, Dip ''ISWD'' (97 / 2) 50 (- 3) 1],
      [''intraday_iswd_+'', ''intraday_iswd_-''])"
proof -
  have straddle: "cmd_watch demo_conf ''2024-03-07'' ''2024-03-08'' rising
     (Some \<lparr>state_date = Some ''2024-03-07'',
            fired = [''intraday_iswd_+'', ''intraday_iswd_-'']\<rparr>) =
     (Some \<lparr>state_date = Some ''2024-03-08'',
            fired = [''intraday_iswd_+'', ''intraday_iswd_-'']\<rparr>, [], [])"
    by (simp add: quote_defs watch_defs demo_conf_def rising_def)
  have up: "intraday_move demo_conf rising ''iswd'' iswd = Some ''intraday_iswd_+''"
    by (simp add: intraday_move_def quote_defs watch_defs demo_conf_def rising_def)
  have down: "intraday_move demo_conf falling ''iswd'' iswd = Some ''intraday_iswd_-''"
    by (simp add: intraday_move_def quote_defs watch_defs demo_conf_def falling_def)
  have silent: "watch_cycles demo_conf ''2024-03-08'' [rising, falling, rising]
     (Some \<lparr>state_date = Some ''2024-03-08'',
            fired = [''intraday_iswd_+'', ''intraday_iswd_-'']\<rparr>) =
     (Some \<lparr>state_date = Some ''2024-03-08'',
            fired = [''intraday_iswd_+'', ''intraday_iswd_-'']\<rparr>, [], [])"
    by (simp add: quote_defs watch_defs demo_conf_def rising_def falling_def)
  have reset: "watch_cycles demo_conf ''2024-03-08'' [rising, falling, rising]
     (Some \<lparr>state_date = Some ''2024-03-07'',
            fired = [''intraday_iswd_+'', ''intraday_iswd_-'']\<rparr>) =
     (Some \<lparr>state_date = Some ''2024-03-08'',
            fired = [''intraday_iswd_+'', ''intraday_iswd_-'']\<rparr>,
      [Spike ''ISWD'' (103 / 2) 50 3 1, Dip ''ISWD'' (97 / 2) 50 (- 3) 1],
      [''intraday_iswd_+'', ''intraday_iswd_-''])"
    by (simp add: quote_defs watch_defs demo_conf_def rising_def falling_def)
  from straddle up down silent reset show ?thesis by simp
qed

section \<open>The daily summary: properties\<close>







lemma cmd_summary_result:
  assumes "summary_loop (load_history stored) (get_gbp_usd_rate yf) yf ASSETS []
             [Title, DateLine, Blank] = Inr (got, body)"
  shows "cmd_summary today cal now yf stored =
           Inr (if got \<noteq> [] then
                  Some (save_history cal now
                    ((load_history stored)\<lparr>entries :=
                       filter (\<lambda>e. date e \<noteq> today) (entries (load_history stored))
                         @ [\<lparr>date = today, prices = got,
                              gbp_usd_rate = get_gbp_usd_rate yf\<rparr>]\<rparr>))
                else stored,
                body @ rate_lines (get_gbp_usd_rate yf))"
  using assms by (simp add: cmd_summary_def Let_def bind_err_def rate_lines_def)

lemma cmd_summary_write:
  assumes loop: "summary_loop (load_history stored) (get_gbp_usd_rate yf) yf ASSETS []
             [Title, DateLine, Blank] = Inr (got, body)"
    and wrote: "got \<noteq> []" and window: "cal (now - 90) \<le> today"
    and run: "cmd_summary today cal now yf stored = Inr (stored', lines)"
  shows "\<exists>h'. stored' = Some h' \<and>
           filter (\<lambda>e. date e = today) (entries h') =
             [\<lparr>date = today, prices = got, gbp_usd_rate = get_gbp_usd_rate yf\<rparr>] \<and>
           filter (\<lambda>e. date e \<noteq> today) (entries h') =
             filter (\<lambda>e. date e \<noteq> today \<and> cal (now - 90) \<le> date e)
               (entries (load_history stored))"
proof -
  have keep: "filter (\<lambda>e. date e = today)
      (filter (\<lambda>e. cal (now - 90) \<le> date e)
         (filter (\<lambda>e. date e \<noteq> today) (entries (load_history stored)))) = []"
    by (simp add: filter_empty_conv)
  have other: "filter (\<lambda>e. date e \<noteq> today)
      (filter (\<lambda>e. cal (now - 90) \<le> date e)
         (filter (\<lambda>e. date e \<noteq> today) (entries (load_history stored)))) =
      filter (\<lambda>e. date e \<noteq> today \<and> cal (now - 90) \<le> date e) (entries (load_history stored))"
    by (simp add: conj_commute cong: filter_cong)
  from run cmd_summary_result [OF loop, of today cal now] wrote
  have "stored' = Some (save_history cal now
                    ((load_history stored)\<lparr>entries :=
                       filter (\<lambda>e. date e \<noteq> today) (entries (load_history stored))
                         @ [\<lparr>date = today, prices = got,
                              gbp_usd_rate = get_gbp_usd_rate yf\<rparr>]\<rparr>))"
    by simp
  then show ?thesis
    using window keep other by (simp add: save_history_def HISTORY_DAYS_def Let_def)
qed

text \<open>
  Claim C6. Two summary runs on the same date, the second loading the history that the first
  saved, each with at least one price to write. After the first run the history holds
  exactly one entry for the date, with the prices and rate of the first run; after the
  second it holds exactly one entry for the date, with the prices and rate of the second
  run, and the entries of other dates are those of before, less the trimmed ones. The
  premises on \<open>cal\<close> say that the retention cut-off is not after today.
\<close>

theorem summary_same_day_replaces:
  assumes loop1: "summary_loop (load_history stored0) (get_gbp_usd_rate yf1) yf1 ASSETS []
             [Title, DateLine, Blank] = Inr (got1, body1)"
    and wrote1: "got1 \<noteq> []" and window1: "cal (now1 - 90) \<le> today"
    and run1: "cmd_summary today cal now1 yf1 stored0 = Inr (stored1, lines1)"
    and loop2: "summary_loop (load_history stored1) (get_gbp_usd_rate yf2) yf2 ASSETS []
             [Title, DateLine, Blank] = Inr (got2, body2)"
    and wrote2: "got2 \<noteq> []" and window2: "cal (now2 - 90) \<le> today"
    and run2: "cmd_summary today cal now2 yf2 stored1 = Inr (stored2, lines2)"
  shows "\<exists>h1 h2. stored1 = Some h1 \<and> stored2 = Some h2 \<and>
           filter (\<lambda>e. date e = today) (entries h1) =
             [\<lparr>date = today, prices = got1, gbp_usd_rate = get_gbp_usd_rate yf1\<rparr>] \<and>
           filter (\<lambda>e. date e = today) (entries h2) =
             [\<lparr>date = today, prices = got2, gbp_usd_rate = get_gbp_usd_rate yf2\<rparr>] \<and>
           length (filter (\<lambda>e. date e = today) (entries h2)) = 1 \<and>
           filter (\<lambda>e. date e \<noteq> today) (entries h2) =
             filter (\<lambda>e. date e \<noteq> today \<and> cal (now2 - 90) \<le> date e) (entries h1)"
proof -
  from cmd_summary_write [OF loop1 wrote1 window1 run1] obtain h1 where
    h1: "stored1 = Some h1"
      "filter (\<lambda>e. date e = today) (entries h1) =
         [\<lparr>date = today, prices = got1, gbp_usd_rate = get_gbp_usd_rate yf1\<rparr>]"
    by blast
  from cmd_summary_write [OF loop2 wrote2 window2 run2] obtain h2 where
    h2: "stored2 = Some h2"
      "filter (\<lambda>e. date e = today) (entries h2) =
         [\<lparr>date = today, prices = got2, gbp_usd_rate = get_gbp_usd_rate yf2\<rparr>]"
      "filter (\<lambda>e. date e \<noteq> today) (entries h2) =
         filter (\<lambda>e. date e \<noteq> today \<and> cal (now2 - 90) \<le> date e) (entries (load_history stored1))"
    by blast
  from h1 h2 show ?thesis by (simp add: load_history_def)
qed

theorem summary_same_day_replaces_witness:
  "cmd_summary ''2024-03-08'' (\<lambda>d. ''2023-12-09'') 0 morning None =
     Inr (Some \<lparr>entries = [\<lparr>date = ''2024-03-08'', prices = [(''iswd'', Some (13 / 2))],
                              gbp_usd_rate = Some (5 / 4)\<rparr>]\<rparr>,
          [Title, DateLine, Blank, Unavailable ''Gold'', Blank, Header ''ISWD'',
           PriceLine (13 / 2) (Some (65 / 8)) [], ChangeLine (1 / 10) (25 / 16), Blank,
           Unavailable ''HBKS'', Blank, RateLine (5 / 4)]) \<and>
   cmd_summary ''2024-03-08'' (\<lambda>d. ''2023-12-09'') 0 evening
     (Some \<lparr>entries = [\<lparr>date = ''2024-03-08'', prices = [(''iswd'', Some (13 / 2))],
                          gbp_usd_rate = Some (5 / 4)\<rparr>]\<rparr>) =
     Inr (Some \<lparr>entries = [\<lparr>date = ''2024-03-08'',
                              prices = [(''iswd'', Some (33 / 5)), (''hbks'', Some 82)],
                              gbp_usd_rate = None\<rparr>]\<rparr>,
          [Title, DateLine, Blank, Unavailable ''Gold'', Blank, Header ''ISWD'',
           PriceLine (33 / 5) None [], ChangeLine (1 / 5) (25 / 8), Blank,
           Header ''HBKS'', PriceLine 82 None [], ChangeLine 2 (5 / 2), Blank])"
proof -
  let ?h1 = "\<lparr>entries = [\<lparr>date = ''2024-03-08'', prices = [(''iswd'', Some (13 / 2))],
                              gbp_usd_rate = Some (5 / 4)\<rparr>]\<rparr>"
  let ?body1 = "[Title, DateLine, Blank, Unavailable ''Gold'', Blank, Header ''ISWD'',
           PriceLine (13 / 2) (Some (65 / 8)) [], ChangeLine (1 / 10) (25 / 16), Blank,
           Unavailable ''HBKS'', Blank]"
  let ?body2 = "[Title, DateLine, Blank, Unavailable ''Gold'', Blank, Header ''ISWD'',
           PriceLine (33 / 5) None [], ChangeLine (1 / 5) (25 / 8), Blank,
           Header ''HBKS'', PriceLine 82 None [], ChangeLine 2 (5 / 2), Blank]"
  have loop1: "summary_loop (load_history None) (get_gbp_usd_rate morning) morning ASSETS []
      [Title, DateLine, Blank] = Inr ([(''iswd'', Some (13 / 2))], ?body1)"
    by (simp add: quote_defs trend_defs summary_defs morning_def)
  have loop2: "summary_loop (load_history (Some ?h1)) (get_gbp_usd_rate evening) evening ASSETS []
      [Title, DateLine, Blank] = Inr ([(''iswd'', Some (33 / 5)), (''hbks'', Some 82)], ?body2)"
    by (simp add: quote_defs trend_defs summary_defs evening_def)
  have run1: "cmd_summary ''2024-03-08'' (\<lambda>d. ''2023-12-09'') 0 morning None =
      Inr (Some ?h1, ?body1 @ [RateLine (5 / 4)])"
    using cmd_summary_result [OF loop1, of "''2024-03-08''" "\<lambda>d. ''2023-12-09''" 0]
    by (simp add: summary_defs rate_lines_def get_gbp_usd_rate_def morning_def market_def)
  have run2: "cmd_summary ''2024-03-08'' (\<lambda>d. ''2023-12-09'') 0 evening (Some ?h1) =
      Inr (Some \<lparr>entries = [\<lparr>date = ''2024-03-08'',
                              prices = [(''iswd'', Some (33 / 5)), (''hbks'', Some 82)],
                              gbp_usd_rate = None\<rparr>]\<rparr>, ?body2)"
    using cmd_summary_result [OF loop2, of "''2024-03-08''" "\<lambda>d. ''2023-12-09''" 0]
    by (simp add: summary_defs rate_lines_def get_gbp_usd_rate_def evening_def market_def)
  have w: "(\<lambda>d. ''2023-12-09'') ((0::int) - 90) \<le> ''2024-03-08''" by simp
  from summary_same_day_replaces [OF loop1 _ w run1 loop2 _ w run2] run1 run2
  show ?thesis by simp
qed

section \<open>A failed instrument\<close>





lemma watch_asset_skip:
  "get_asset_price k cfg rate yf = None \<Longrightarrow> watch_asset conf rate yf (k, cfg) run = run"
  by simp








end
